theory Spec2Isabelle
  imports Main "HOL-Library.AList" "HOL-Library.Multiset"
begin

section \<open>Data model\<close>

text \<open>
  The views of \<^verbatim>\<open>comments/views.py\<close> work on three kinds of data: the rows of the
  comment table, the request with its URL arguments, and the decoded JSON body.
  Identifiers and status codes are Python integers (\<open>int\<close>); the URL arguments
  \<^verbatim>\<open>content_type\<close> and \<^verbatim>\<open>object_pk\<close> are strings.
\<close>

type_synonym ctype = nat

text \<open>
  Modelled from the spec: the \<^verbatim>\<open>Comment\<close> model of \<^verbatim>\<open>comments/models.py\<close>, which is
  not part of the sources at hand. The fields are the ones the views pass to
  \<^verbatim>\<open>Comment.objects.create\<close> and assign (\<^verbatim>\<open>comment\<close>, \<^verbatim>\<open>is_active\<close>), together with the
  store-assigned identifier and creation time of the data model.
\<close>

record comment =
  pk :: int
  content_type :: ctype
  object_pk :: string
  user :: nat
  parent :: "int option"
  comment :: string
  is_active :: bool
  created :: nat

text \<open>
  Modelled from the spec: a target is the entity that comments attach to, identified by
  its content type and its primary key.
\<close>

record target =
  target_ctype :: ctype
  target_pk :: string

text \<open>
  The value of \<^verbatim>\<open>json.loads\<close>. A dictionary is an association list whose lookup takes
  the first entry of a key. Numbers with a fraction are left out; the views handle them
  as they handle every value that is neither a string nor an integer.
\<close>

datatype json =
    JNull
  | JBool bool
  | JInt int
  | JStr string
  | JArr "json list"
  | JObj "(string \<times> json) list"

datatype http_method = GET | POST | PUT | DELETE

record request =
  http_method :: http_method
  request_user :: nat
  is_authenticated :: bool
  body :: string

datatype exn =
    Http404
  | JSONDecodeError
  | AttributeError
  | TypeError
  | ValueError
  | KeyError
  | MultipleObjectsReturned

datatype data =
    ErrorJSON string
  | CommentJSON comment
  | CommentsJSON "comment list"
  | NoContent

record response =
  status :: int
  content :: data

text \<open>
  The permission classes: \<^verbatim>\<open>RootPerms\<close> answers for the collection views,
  \<^verbatim>\<open>DetailPerms\<close> for the item views. Each method takes the request, the two URL
  arguments and, for the item views, the comment id.
\<close>

record root_perms =
  can_list_comments :: "request \<Rightarrow> string \<Rightarrow> string \<Rightarrow> bool"
  can_create_comment :: "request \<Rightarrow> string \<Rightarrow> string \<Rightarrow> bool"

record detail_perms =
  can_get_comment :: "request \<Rightarrow> string \<Rightarrow> string \<Rightarrow> int \<Rightarrow> bool"
  can_update_comment :: "request \<Rightarrow> string \<Rightarrow> string \<Rightarrow> int \<Rightarrow> bool"
  can_delete_comment :: "request \<Rightarrow> string \<Rightarrow> string \<Rightarrow> int \<Rightarrow> bool"

text \<open>
  The collaborators the views import and call, taken as parameters:
  \<^item> \<open>get_content_type_and_target_or_none\<close>: the target resolver; \<open>None\<close> stands for
    a result whose target component is \<^verbatim>\<open>None\<close> (the views never read the content type
    in that case);
  \<^item> \<open>loads\<close>: \<^verbatim>\<open>json.loads\<close>, which raises on a body that is not JSON;
  \<^item> \<open>clean\<close> and \<open>linkify\<close>: the two \<^verbatim>\<open>bleach\<close> functions on text;
  \<^item> \<open>validate_json\<close>: \<^verbatim>\<open>Comment.validate_json\<close>, returning the verdict and the message;
  \<^item> \<open>to_python\<close>: the conversion the ORM applies to a lookup value that is not already
    an integer;
  \<^item> \<open>now\<close>: the clock read when a row is created.
\<close>

record env =
  get_content_type_and_target_or_none :: "string \<Rightarrow> string \<Rightarrow> (ctype \<times> target) option"
  loads :: "string \<Rightarrow> exn + json"
  clean :: "string \<Rightarrow> string"
  linkify :: "string \<Rightarrow> string"
  validate_json :: "json \<Rightarrow> bool \<times> string"
  to_python :: "json \<Rightarrow> exn + int"
  now :: nat

section \<open>The allow-all policy of \<^verbatim>\<open>public/permissions.py\<close>\<close>

definition Root :: root_perms where
  "Root = \<lparr>can_list_comments = (\<lambda>request content_type object_pk. True),
           can_create_comment = (\<lambda>request content_type object_pk. True)\<rparr>"

definition Detail :: detail_perms where
  "Detail = \<lparr>can_get_comment = (\<lambda>request content_type object_pk comment_id. True),
             can_update_comment = (\<lambda>request content_type object_pk comment_id. True),
             can_delete_comment = (\<lambda>request content_type object_pk comment_id. True)\<rparr>"

section \<open>The comment store\<close>

text \<open>
  Modelled from the spec: the manager and query sets of \<^verbatim>\<open>comments/models.py\<close>. The
  table is a list of rows. \<open>objects\<close> reads it in the model's order, creation time
  ascending; \<open>for_model\<close> keeps the rows attached to a target; \<open>active\<close> keeps the
  rows whose flag is set.
\<close>

definition attached :: "comment \<Rightarrow> target \<Rightarrow> bool" where
  "attached c tgt \<longleftrightarrow> content_type c = target_ctype tgt \<and> object_pk c = target_pk tgt"

definition objects :: "comment list \<Rightarrow> comment list" where
  "objects s = sort_key created s"

definition for_model :: "target \<Rightarrow> comment list \<Rightarrow> comment list" where
  "for_model tgt qs = filter (\<lambda>c. attached c tgt) qs"

definition active :: "comment list \<Rightarrow> comment list" where
  "active qs = filter is_active qs"

text \<open>Django's \<^verbatim>\<open>filter(id=...)\<close> and \<^verbatim>\<open>first()\<close> on a query set.\<close>

definition filter_id :: "int \<Rightarrow> comment list \<Rightarrow> comment list" where
  "filter_id i qs = filter (\<lambda>c. pk c = i) qs"

fun first :: "'a list \<Rightarrow> 'a option" where
  "first [] = None"
| "first (x # xs) = Some x"

text \<open>
  Django's \<^verbatim>\<open>get_object_or_404(queryset, pk=...)\<close>: no row raises \<^verbatim>\<open>Http404\<close>, more
  than one row raises \<^verbatim>\<open>MultipleObjectsReturned\<close>.
\<close>

definition get_object_or_404 :: "comment list \<Rightarrow> int \<Rightarrow> exn + comment" where
  "get_object_or_404 qs i =
     (case filter_id i qs of
        [] \<Rightarrow> Inl Http404
      | [c] \<Rightarrow> Inr c
      | _ \<Rightarrow> Inl MultipleObjectsReturned)"

text \<open>\<^verbatim>\<open>comment.save()\<close> writes the row with the instance's primary key.\<close>

definition save :: "comment \<Rightarrow> comment list \<Rightarrow> comment list" where
  "save c s = map (\<lambda>d. if pk d = pk c then c else d) s"

fun max_id :: "comment list \<Rightarrow> int" where
  "max_id [] = 0"
| "max_id (c # cs) = max (pk c) (max_id cs)"

text \<open>
  Modelled from the spec: \<^verbatim>\<open>Comment.objects.create\<close>. The store assigns a fresh
  identifier and the creation time; the active flag defaults to true.
\<close>

definition create ::
  "env \<Rightarrow> comment list \<Rightarrow> ctype \<Rightarrow> string \<Rightarrow> nat \<Rightarrow> comment option \<Rightarrow> string
     \<Rightarrow> comment \<times> comment list" where
  "create E s ct opk u par text =
     (let instance = \<lparr>pk = max_id s + 1, content_type = ct, object_pk = opk, user = u,
                       parent = map_option pk par, comment = text, is_active = True,
                       created = now E\<rparr>
      in (instance, s @ [instance]))"

section \<open>Python dictionaries and the JSON body\<close>

definition dict_get :: "(string \<times> json) list \<Rightarrow> string \<Rightarrow> json \<Rightarrow> json" where
  "dict_get d k dflt = (case map_of d k of None \<Rightarrow> dflt | Some v \<Rightarrow> v)"

definition dict_getitem :: "(string \<times> json) list \<Rightarrow> string \<Rightarrow> exn + json" where
  "dict_getitem d k = (case map_of d k of None \<Rightarrow> Inl KeyError | Some v \<Rightarrow> Inr v)"

definition dict_setitem :: "(string \<times> json) list \<Rightarrow> string \<Rightarrow> json \<Rightarrow> (string \<times> json) list" where
  "dict_setitem d k v = AList.update k v d"

text \<open>
  \<^verbatim>\<open>_sanitize_and_linkify\<close>: \<^verbatim>\<open>bleach.clean\<close> then \<^verbatim>\<open>bleach.linkify\<close>. \<^verbatim>\<open>bleach.clean\<close>
  raises \<^verbatim>\<open>TypeError\<close> on an argument that is not text.
\<close>

fun sanitize_and_linkify :: "env \<Rightarrow> json \<Rightarrow> exn + string" where
  "sanitize_and_linkify E (JStr text) = Inr (linkify E (clean E text))"
| "sanitize_and_linkify E v = Inl TypeError"

text \<open>The value of an \<^verbatim>\<open>id=\<close> lookup: an integer as it is, anything else converted.\<close>

fun lookup_value :: "env \<Rightarrow> json \<Rightarrow> exn + int" where
  "lookup_value E (JInt n) = Inr n"
| "lookup_value E v = to_python E v"

section \<open>Responses\<close>

definition JSONResponse :: "data \<Rightarrow> response" where
  "JSONResponse d = \<lparr>status = 200, content = d\<rparr>"

definition build_error_response :: "string \<Rightarrow> int \<Rightarrow> response" where
  "build_error_response message st = \<lparr>status = st, content = ErrorJSON message\<rparr>"

definition HttpResponseNotModified :: response where
  "HttpResponseNotModified = \<lparr>status = 304, content = NoContent\<rparr>"

definition HttpResponse :: "int \<Rightarrow> response" where
  "HttpResponse st = \<lparr>status = st, content = NoContent\<rparr>"

text \<open>
  What the client sees: the framework turns \<^verbatim>\<open>Http404\<close> into a 404 response and any
  other exception that leaves a view into a 500 response.
\<close>

fun http_status :: "exn + response \<Rightarrow> int" where
  "http_status (Inr r) = status r"
| "http_status (Inl Http404) = 404"
| "http_status (Inl e) = 500"

section \<open>The collection views: \<^verbatim>\<open>CommentView\<close>\<close>

type_synonym result = "(exn + response) \<times> comment list"

definition CommentView_get_queryset :: "target \<Rightarrow> comment list \<Rightarrow> comment list" where
  "CommentView_get_queryset tgt s = active (for_model tgt (objects s))"

definition CommentView_get ::
  "root_perms \<Rightarrow> env \<Rightarrow> comment list \<Rightarrow> request \<Rightarrow> string \<Rightarrow> string \<Rightarrow> result" where
  "CommentView_get R E s req ctype_id opk =
     (if \<not> can_list_comments R req ctype_id opk
      then (Inr (build_error_response ''Permission denied'' 403), s)
      else case get_content_type_and_target_or_none E ctype_id opk of
             None \<Rightarrow> (Inr (build_error_response ''Bad content type or object id'' 404), s)
           | Some (ct, tgt) \<Rightarrow>
               (Inr (JSONResponse (CommentsJSON (CommentView_get_queryset tgt s))), s))"

text \<open>
  The last part of \<^verbatim>\<open>post\<close>, from the parent lookup on: \<open>d\<close> is the body after the
  sanitised text has been stored under \<^verbatim>\<open>"comment"\<close>. \<open>post_parent\<close> is lines 88 to 93
  of the view, \<open>post_create\<close> lines 95 to 102. The read \<^verbatim>\<open>body["comment"]\<close> is a
  dictionary lookup; from \<^verbatim>\<open>post\<close> it always finds the string stored a few lines
  earlier, so its two failure branches are there only to keep the lookup total.
\<close>

definition post_create ::
  "env \<Rightarrow> comment list \<Rightarrow> request \<Rightarrow> ctype \<Rightarrow> string \<Rightarrow> comment option
     \<Rightarrow> (string \<times> json) list \<Rightarrow> result" where
  "post_create E s req ct opk par d =
     (case dict_getitem d ''comment'' of
        Inl e \<Rightarrow> (Inl e, s)
      | Inr (JStr text) \<Rightarrow>
          (let (instance, s') = create E s ct opk (request_user req) par text
           in (Inr (JSONResponse (CommentJSON instance)), s'))
      | Inr v \<Rightarrow> (Inl TypeError, s))"

definition post_parent ::
  "env \<Rightarrow> comment list \<Rightarrow> request \<Rightarrow> ctype \<Rightarrow> target \<Rightarrow> string
     \<Rightarrow> (string \<times> json) list \<Rightarrow> result" where
  "post_parent E s req ct tgt opk d =
     (case dict_get d ''parentID'' JNull of
        JNull \<Rightarrow> post_create E s req ct opk None d
      | parent_id \<Rightarrow>
          (case lookup_value E parent_id of
             Inl e \<Rightarrow> (Inl e, s)
           | Inr i \<Rightarrow>
               (case first (filter_id i (for_model tgt (objects s))) of
                  None \<Rightarrow> (Inr (build_error_response ''Bad parent'' 404), s)
                | Some p \<Rightarrow> post_create E s req ct opk (Some p) d)))"

definition CommentView_post ::
  "root_perms \<Rightarrow> env \<Rightarrow> comment list \<Rightarrow> request \<Rightarrow> string \<Rightarrow> string \<Rightarrow> result" where
  "CommentView_post R E s req ctype_id opk =
     (if \<not> can_create_comment R req ctype_id opk
      then (Inr (build_error_response ''Permission denied'' 403), s)
      else case get_content_type_and_target_or_none E ctype_id opk of
             None \<Rightarrow> (Inr (build_error_response ''Bad content type or object id'' 404), s)
           | Some (ct, tgt) \<Rightarrow>
               (case loads E (body req) of
                  Inl e \<Rightarrow> (Inl e, s)
                | Inr (JObj d) \<Rightarrow>
                    (case sanitize_and_linkify E (dict_get d ''comment'' (JStr '''')) of
                       Inl e \<Rightarrow> (Inl e, s)
                     | Inr text \<Rightarrow>
                         (let d' = dict_setitem d ''comment'' (JStr text);
                              (is_valid, err) = validate_json E (JObj d')
                          in if \<not> is_valid
                             then (Inr (build_error_response err 400), s)
                             else post_parent E s req ct tgt opk d'))
                | Inr v \<Rightarrow> (Inl AttributeError, s)))"

section \<open>The item views: \<^verbatim>\<open>CommentDetailView\<close>\<close>

definition CommentDetailView_get_queryset :: "comment list \<Rightarrow> comment list" where
  "CommentDetailView_get_queryset s = active (objects s)"

definition CommentDetailView_get ::
  "detail_perms \<Rightarrow> env \<Rightarrow> comment list \<Rightarrow> request \<Rightarrow> string \<Rightarrow> string \<Rightarrow> int \<Rightarrow> result" where
  "CommentDetailView_get D E s req ctype_id opk comment_id =
     (if \<not> can_get_comment D req ctype_id opk comment_id
      then (Inr (build_error_response ''Permission denied'' 403), s)
      else case get_object_or_404 (CommentDetailView_get_queryset s) comment_id of
             Inl e \<Rightarrow> (Inl e, s)
           | Inr c \<Rightarrow> (Inr (JSONResponse (CommentJSON c)), s))"

definition CommentDetailView_put ::
  "detail_perms \<Rightarrow> env \<Rightarrow> comment list \<Rightarrow> request \<Rightarrow> string \<Rightarrow> string \<Rightarrow> int \<Rightarrow> result" where
  "CommentDetailView_put D E s req ctype_id opk comment_id =
     (if \<not> can_update_comment D req ctype_id opk comment_id
      then (Inr (build_error_response ''Permission denied'' 403), s)
      else case get_object_or_404 (CommentDetailView_get_queryset s) comment_id of
             Inl e \<Rightarrow> (Inl e, s)
           | Inr c \<Rightarrow>
               (case loads E (body req) of
                  Inl e \<Rightarrow> (Inl e, s)
                | Inr b \<Rightarrow>
                    (let (is_valid, err) = validate_json E b
                     in if \<not> is_valid
                        then (Inr (build_error_response err 400), s)
                        else case b of
                               JObj d \<Rightarrow>
                                 (case sanitize_and_linkify E (dict_get d ''comment'' (JStr '''')) of
                                    Inl e \<Rightarrow> (Inl e, s)
                                  | Inr text \<Rightarrow>
                                      if text \<noteq> ''''
                                      then (let c' = c\<lparr>comment := text\<rparr>
                                            in (Inr (JSONResponse (CommentJSON c')), save c' s))
                                      else (Inr HttpResponseNotModified, s))
                             | v \<Rightarrow> (Inl AttributeError, s))))"

definition CommentDetailView_delete ::
  "detail_perms \<Rightarrow> env \<Rightarrow> comment list \<Rightarrow> request \<Rightarrow> string \<Rightarrow> string \<Rightarrow> int \<Rightarrow> result" where
  "CommentDetailView_delete D E s req ctype_id opk comment_id =
     (if \<not> can_get_comment D req ctype_id opk comment_id
      then (Inr (build_error_response ''Permission denied'' 403), s)
      else case get_object_or_404 (CommentDetailView_get_queryset s) comment_id of
             Inl e \<Rightarrow> (Inl e, s)
           | Inr c \<Rightarrow>
               (let c' = c\<lparr>is_active := False\<rparr>
                in (Inr (HttpResponse 204), save c' s)))"

section \<open>Routing\<close>






section \<open>Sample collaborators and data\<close>

text \<open>
  Concrete collaborators for evaluating the views: a resolver that knows the two targets
  \<^verbatim>\<open>post/1\<close> and \<^verbatim>\<open>post/2\<close>, a parser whose answer is given, a sanitiser that drops
  every \<^verbatim>\<open><\<close>, and a schema that wants a comment of one to five characters.
\<close>

definition ex_resolve :: "string \<Rightarrow> string \<Rightarrow> (ctype \<times> target) option" where
  "ex_resolve ctype_id opk =
     (if ctype_id = ''post'' \<and> (opk = ''1'' \<or> opk = ''2'')
      then Some (1, \<lparr>target_ctype = 1, target_pk = opk\<rparr>) else None)"

definition ex_validate :: "json \<Rightarrow> bool \<times> string" where
  "ex_validate v =
     (case v of
        JObj d \<Rightarrow>
          (case map_of d ''comment'' of
             Some (JStr t) \<Rightarrow>
               if t \<noteq> [] \<and> length t \<le> 5 then (True, []) else (False, ''bad length'')
           | _ \<Rightarrow> (False, ''comment required''))
      | _ \<Rightarrow> (False, ''not an object''))"

definition ex_env :: "exn + json \<Rightarrow> env" where
  "ex_env parsed =
     \<lparr>get_content_type_and_target_or_none = ex_resolve,
      loads = (\<lambda>b. parsed),
      clean = filter (\<lambda>ch. ch \<noteq> CHR ''<''),
      linkify = (\<lambda>t. t),
      validate_json = ex_validate,
      to_python = (\<lambda>v. Inl ValueError),
      now = 10\<rparr>"

definition ex_c1 :: comment where
  "ex_c1 = \<lparr>pk = 1, content_type = 1, object_pk = ''1'', user = 7, parent = None,
            comment = ''one'', is_active = True, created = 1\<rparr>"

definition ex_c2 :: comment where
  "ex_c2 = \<lparr>pk = 2, content_type = 1, object_pk = ''2'', user = 8, parent = None,
            comment = ''two'', is_active = True, created = 2\<rparr>"

definition ex_c3 :: comment where
  "ex_c3 = \<lparr>pk = 3, content_type = 1, object_pk = ''1'', user = 7, parent = Some 1,
            comment = ''gone'', is_active = False, created = 3\<rparr>"

definition ex_store :: "comment list" where
  "ex_store = [ex_c1, ex_c2, ex_c3]"

definition ex_request :: "http_method \<Rightarrow> request" where
  "ex_request m = \<lparr>http_method = m, request_user = 7, is_authenticated = True, body = []\<rparr>"

text \<open>A policy that lets a user read a comment but not delete it, and one that denies all.\<close>

definition ReadOnly :: detail_perms where
  "ReadOnly = \<lparr>can_get_comment = (\<lambda>request content_type object_pk comment_id. True),
               can_update_comment = (\<lambda>request content_type object_pk comment_id. False),
               can_delete_comment = (\<lambda>request content_type object_pk comment_id. False)\<rparr>"



section \<open>Facts about the store\<close>


lemma filter_id_detail_queryset:
  "filter_id i (CommentDetailView_get_queryset s) =
     sort_key created (filter (\<lambda>c. is_active c \<and> pk c = i) s)"
  by (simp add: filter_id_def CommentDetailView_get_queryset_def active_def objects_def
      filter_sort conj_commute)







section \<open>Permission checks\<close>



text \<open>
  Claim C1. The claim asks \<^verbatim>\<open>delete\<close> to consult \<open>can_delete_comment\<close>. The view
  consults \<open>can_get_comment\<close>: under a policy that allows reading and forbids deleting,
  an authenticated delete of comment 1 answers 204 and deactivates the row.
\<close>

theorem delete_consults_can_get_comment:
  "can_get_comment ReadOnly (ex_request DELETE) ''post'' ''1'' 1 = True \<and>
   can_delete_comment ReadOnly (ex_request DELETE) ''post'' ''1'' 1 = False \<and>
   CommentDetailView_delete ReadOnly (ex_env (Inr JNull)) ex_store (ex_request DELETE)
       ''post'' ''1'' 1 =
     (Inr (HttpResponse 204), [ex_c1\<lparr>is_active := False\<rparr>, ex_c2, ex_c3])"
  by (simp add: ReadOnly_def CommentDetailView_delete_def get_object_or_404_def
      filter_id_detail_queryset ex_store_def ex_c1_def ex_c2_def ex_c3_def save_def)

section \<open>Target resolution\<close>

text \<open>
  Claim C3, as stated, fails for the item views: they never call the resolver. A get on
  the path \<^verbatim>\<open>nope/9\<close>, which resolves to no target, with the id of an active comment is
  answered 200.
\<close>

theorem item_views_skip_target_resolution:
  "can_get_comment Detail (ex_request GET) ''nope'' ''9'' 2 \<and>
   get_content_type_and_target_or_none (ex_env (Inr JNull)) ''nope'' ''9'' = None \<and>
   http_status (fst (CommentDetailView_get Detail (ex_env (Inr JNull)) ex_store (ex_request GET)
       ''nope'' ''9'' 2)) = 200"
  by (simp add: Detail_def ex_env_def ex_resolve_def CommentDetailView_get_def
      get_object_or_404_def filter_id_detail_queryset ex_store_def ex_c1_def ex_c2_def
      ex_c3_def JSONResponse_def)

text \<open>The sanitiser does not read the resolver.\<close>

lemma sanitize_ignores_resolver:
  "sanitize_and_linkify (E\<lparr>get_content_type_and_target_or_none := r\<rparr>) v =
     sanitize_and_linkify E v"
  by (cases v) simp_all

text \<open>
  Claim C3, amended. In the two collection views (list and create), an authorized
  request whose content type and object id resolve to no target is answered 404 "Bad
  content type or object id" and the table is unchanged. The three item views (get,
  update, delete) do not resolve the target: their result is the same whatever the
  resolver answers.
\<close>

theorem unresolved_target_404_collection_views:
  "(can_list_comments R req ct opk \<and> get_content_type_and_target_or_none E ct opk = None \<longrightarrow>
      CommentView_get R E s req ct opk =
        (Inr (build_error_response ''Bad content type or object id'' 404), s)) \<and>
   (can_create_comment R req ct opk \<and> get_content_type_and_target_or_none E ct opk = None \<longrightarrow>
      CommentView_post R E s req ct opk =
        (Inr (build_error_response ''Bad content type or object id'' 404), s)) \<and>
   CommentDetailView_get D (E\<lparr>get_content_type_and_target_or_none := r\<rparr>) s req ct opk i =
     CommentDetailView_get D E s req ct opk i \<and>
   CommentDetailView_put D (E\<lparr>get_content_type_and_target_or_none := r\<rparr>) s req ct opk i =
     CommentDetailView_put D E s req ct opk i \<and>
   CommentDetailView_delete D (E\<lparr>get_content_type_and_target_or_none := r\<rparr>) s req ct opk i =
     CommentDetailView_delete D E s req ct opk i"
  by (simp add: CommentView_get_def CommentView_post_def CommentDetailView_get_def
      CommentDetailView_put_def CommentDetailView_delete_def sanitize_ignores_resolver
      cong: sum.case_cong json.case_cong prod.case_cong if_cong)

theorem unresolved_target_404_collection_views_witness:
  "can_list_comments Root (ex_request GET) ''nope'' ''9'' \<and>
   can_create_comment Root (ex_request GET) ''nope'' ''9'' \<and>
   get_content_type_and_target_or_none (ex_env (Inr JNull)) ''nope'' ''9'' = None \<and>
   CommentView_get Root (ex_env (Inr JNull)) ex_store (ex_request GET) ''nope'' ''9'' =
     (Inr (build_error_response ''Bad content type or object id'' 404), ex_store) \<and>
   CommentView_post Root (ex_env (Inr JNull)) ex_store (ex_request GET) ''nope'' ''9'' =
     (Inr (build_error_response ''Bad content type or object id'' 404), ex_store)"
  using unresolved_target_404_collection_views [of Root "ex_request GET" "''nope''" "''9''" "ex_env (Inr JNull)" ex_store]
  by (simp add: Root_def ex_env_def ex_resolve_def)

section \<open>Bodies that are not JSON\<close>

text \<open>
  Claim C4, as stated, fails: \<^verbatim>\<open>json.loads\<close> is called outside any handler for its
  exception. An authorized create on a resolvable target with an unparseable body ends
  in \<^verbatim>\<open>JSONDecodeError\<close> leaving the view, which the framework answers with 500.
\<close>

theorem unparseable_body_raises:
  "can_create_comment Root (ex_request POST) ''post'' ''1'' \<and>
   loads (ex_env (Inl JSONDecodeError)) (body (ex_request POST)) = Inl JSONDecodeError \<and>
   CommentView_post Root (ex_env (Inl JSONDecodeError)) ex_store (ex_request POST) ''post'' ''1'' =
     (Inl JSONDecodeError, ex_store) \<and>
   http_status (fst (CommentView_post Root (ex_env (Inl JSONDecodeError)) ex_store
       (ex_request POST) ''post'' ''1'')) = 500"
  by (simp add: Root_def ex_env_def ex_resolve_def CommentView_post_def)

text \<open>
  Claim C4, amended. For a create request that passes the permission check and the
  target resolution, and for an update request that passes the permission check and the
  comment lookup, a body that \<^verbatim>\<open>json.loads\<close> rejects makes the view raise that
  exception: no 400 response is built, and the table is unchanged.
\<close>

theorem unparseable_body_propagates:
  "(can_create_comment R req ct opk \<and>
    get_content_type_and_target_or_none E ct opk = Some (cty, tgt) \<and>
    loads E (body req) = Inl JSONDecodeError \<longrightarrow>
      CommentView_post R E s req ct opk = (Inl JSONDecodeError, s)) \<and>
   (can_update_comment D req ct opk i \<and>
    get_object_or_404 (CommentDetailView_get_queryset s) i = Inr c \<and>
    loads E (body req) = Inl JSONDecodeError \<longrightarrow>
      CommentDetailView_put D E s req ct opk i = (Inl JSONDecodeError, s))"
  by (simp add: CommentView_post_def CommentDetailView_put_def)

theorem unparseable_body_propagates_witness:
  "can_create_comment Root (ex_request POST) ''post'' ''1'' \<and>
   get_content_type_and_target_or_none (ex_env (Inl JSONDecodeError)) ''post'' ''1'' =
     Some (1, \<lparr>target_ctype = 1, target_pk = ''1''\<rparr>) \<and>
   loads (ex_env (Inl JSONDecodeError)) (body (ex_request POST)) = Inl JSONDecodeError \<and>
   can_update_comment Detail (ex_request POST) ''post'' ''1'' 1 \<and>
   get_object_or_404 (CommentDetailView_get_queryset ex_store) 1 = Inr ex_c1 \<and>
   CommentView_post Root (ex_env (Inl JSONDecodeError)) ex_store (ex_request POST) ''post'' ''1'' =
     (Inl JSONDecodeError, ex_store) \<and>
   CommentDetailView_put Detail (ex_env (Inl JSONDecodeError)) ex_store (ex_request POST)
       ''post'' ''1'' 1 = (Inl JSONDecodeError, ex_store)"
  using unparseable_body_propagates [of Root "ex_request POST" "''post''" "''1''" "ex_env (Inl JSONDecodeError)"
      1 "\<lparr>target_ctype = 1, target_pk = ''1''\<rparr>" ex_store Detail 1 ex_c1]
  by (simp add: Root_def Detail_def ex_env_def ex_resolve_def get_object_or_404_def
      filter_id_detail_queryset ex_store_def ex_c1_def ex_c2_def ex_c3_def)

section \<open>Listing\<close>

lemma sorted_queryset: "sorted (map created (CommentView_get_queryset tgt s))"
  by (simp add: CommentView_get_queryset_def active_def for_model_def objects_def
      sorted_filter)

text \<open>
  Claim C9. An authorized list request on a resolvable target is answered 200 with the
  query set of the view, which holds exactly the rows of the table that are active and
  attached to the target, each as often as the table holds it, in ascending order of
  creation time. The table is unchanged.
\<close>

theorem list_active_comments_of_target:
  assumes "can_list_comments R req ct opk"
    and "get_content_type_and_target_or_none E ct opk = Some (cty, tgt)"
  shows "CommentView_get R E s req ct opk =
           (Inr (JSONResponse (CommentsJSON (CommentView_get_queryset tgt s))), s) \<and>
         status (JSONResponse (CommentsJSON (CommentView_get_queryset tgt s))) = 200 \<and>
         mset (CommentView_get_queryset tgt s) =
           filter_mset (\<lambda>c. is_active c \<and> attached c tgt) (mset s) \<and>
         sorted (map created (CommentView_get_queryset tgt s))"
proof -
  have "mset (CommentView_get_queryset tgt s) =
          filter_mset (\<lambda>c. is_active c \<and> attached c tgt) (mset s)"
    by (simp add: CommentView_get_queryset_def active_def for_model_def objects_def
        conj_commute)
  with assms show ?thesis
    by (simp add: CommentView_get_def JSONResponse_def sorted_queryset)
qed

theorem list_active_comments_of_target_witness:
  "can_list_comments Root (ex_request GET) ''post'' ''1'' \<and>
   get_content_type_and_target_or_none (ex_env (Inr JNull)) ''post'' ''1'' =
     Some (1, \<lparr>target_ctype = 1, target_pk = ''1''\<rparr>) \<and>
   CommentView_get Root (ex_env (Inr JNull)) ex_store (ex_request GET) ''post'' ''1'' =
     (Inr \<lparr>status = 200, content = CommentsJSON [ex_c1]\<rparr>, ex_store)"
  using list_active_comments_of_target [of Root "ex_request GET" "''post''" "''1''" "ex_env (Inr JNull)" 1
      "\<lparr>target_ctype = 1, target_pk = ''1''\<rparr>" ex_store]
  by (simp add: Root_def ex_env_def ex_resolve_def CommentView_get_queryset_def active_def
      for_model_def objects_def attached_def ex_store_def ex_c1_def ex_c2_def ex_c3_def
      JSONResponse_def)

section \<open>Update\<close>






section \<open>Create with a parent\<close>




section \<open>Order of sanitising and validating\<close>

lemma ex_lookup_1: "get_object_or_404 (CommentDetailView_get_queryset ex_store) 1 = Inr ex_c1"
  by (simp add: get_object_or_404_def filter_id_detail_queryset ex_store_def ex_c1_def
      ex_c2_def ex_c3_def)

text \<open>
  Claim C2. The claim asks both write views to sanitise the comment field before the
  schema sees it. \<^verbatim>\<open>post\<close> does; \<^verbatim>\<open>put\<close> calls \<^verbatim>\<open>validate_json\<close> on the body as
  parsed and sanitises afterwards. With a schema that wants one to five characters and a
  sanitiser that drops \<^verbatim>\<open><\<close>, the comment \<^verbatim>\<open><<<<hi\<close> sanitises to \<^verbatim>\<open>hi\<close>, which the
  schema accepts; \<^verbatim>\<open>put\<close> answers 400 "bad length" for it, while \<^verbatim>\<open>post\<close> with the
  same body creates the comment \<^verbatim>\<open>hi\<close>.
\<close>

theorem put_validates_before_sanitizing:
  "sanitize_and_linkify (ex_env (Inr (JObj [(''comment'', JStr ''<<<<hi'')])))
       (JStr ''<<<<hi'') = Inr ''hi'' \<and>
   validate_json (ex_env (Inr (JObj [(''comment'', JStr ''<<<<hi'')])))
       (JObj [(''comment'', JStr ''hi'')]) = (True, []) \<and>
   CommentDetailView_put Detail (ex_env (Inr (JObj [(''comment'', JStr ''<<<<hi'')]))) ex_store
       (ex_request PUT) ''post'' ''1'' 1 =
     (Inr (build_error_response ''bad length'' 400), ex_store) \<and>
   fst (CommentView_post Root (ex_env (Inr (JObj [(''comment'', JStr ''<<<<hi'')]))) ex_store
       (ex_request POST) ''post'' ''1'') =
     Inr (JSONResponse (CommentJSON
        \<lparr>pk = 4, content_type = 1, object_pk = ''1'', user = 7, parent = None,
         comment = ''hi'', is_active = True, created = 10\<rparr>))"
proof -
  let ?E = "ex_env (Inr (JObj [(''comment'', JStr ''<<<<hi'')]))"
  have san: "sanitize_and_linkify ?E (JStr ''<<<<hi'') = Inr ''hi''"
    by (simp add: ex_env_def)
  have val: "validate_json ?E (JObj [(''comment'', JStr ''hi'')]) = (True, [])"
    by (simp add: ex_env_def ex_validate_def)
  have raw: "validate_json ?E (JObj [(''comment'', JStr ''<<<<hi'')]) = (False, ''bad length'')"
    by (simp add: ex_env_def ex_validate_def)
  have ld: "loads ?E b = Inr (JObj [(''comment'', JStr ''<<<<hi'')])" for b
    by (simp add: ex_env_def)
  have put: "CommentDetailView_put Detail ?E ex_store (ex_request PUT) ''post'' ''1'' 1 =
               (Inr (build_error_response ''bad length'' 400), ex_store)"
    by (simp add: CommentDetailView_put_def Detail_def ex_lookup_1 ld raw)
  have mx: "max_id ex_store = 3"
    by (simp add: ex_store_def ex_c1_def ex_c2_def ex_c3_def)
  have post: "fst (CommentView_post Root ?E ex_store (ex_request POST) ''post'' ''1'') =
      Inr (JSONResponse (CommentJSON
        \<lparr>pk = 4, content_type = 1, object_pk = ''1'', user = 7, parent = None,
         comment = ''hi'', is_active = True, created = 10\<rparr>))"
    by (simp add: CommentView_post_def Root_def ex_env_def ex_resolve_def ex_validate_def
        dict_get_def dict_setitem_def Let_def post_parent_def post_create_def
        dict_getitem_def create_def mx ex_request_def)
  show ?thesis
    using san val put post by simp
qed

section \<open>The item lookup\<close>





section \<open>Soft delete\<close>

















end
